theory Spec2Isabelle
  imports Main "HOL-Library.Sublist"
begin

section \<open>The batch pipeline of \<^verbatim>\<open>codigo_yolo.py\<close>\<close>

text \<open>
  The script lists the images of a bucket, and for each one downloads it, counts the
  people in it, uploads an annotated copy, and writes one record to a table.
  Everything it does happens through external services (the object store, the
  detection engine, the record store, the local file system, the clock). The model
  makes them explicit:
  \<^item> what an external call answers is a parameter of the model, a field of the
    record \<open>ambiente\<close>, a function of the call's arguments (while it processes one
    item the script makes no call twice with the same arguments);
  \<^item> what the script changes is the record \<open>estado\<close>: the local files, the objects
    it stored, the records it wrote, the lines it printed;
  \<^item> an exception is a value of \<open>erro\<close>, and a function that can raise returns
    \<open>erro + 'a\<close> together with the state it leaves behind.
\<close>

subsection \<open>Exceptions\<close>

text \<open>
  The handlers of the script tell \<^verbatim>\<open>botocore.exceptions.ClientError\<close> from every
  other subclass of \<^verbatim>\<open>Exception\<close>, and nothing else. The string is the message.
  What is not an \<^verbatim>\<open>Exception\<close> (a keyboard interrupt, an exit of the interpreter) is
  not an error of a service and is outside the model.
\<close>

datatype erro = ClientError string | Excecao string

subsection \<open>Configuration (lines 8 to 13)\<close>

record config =
  BUCKET :: string
  INPUT_PREFIXO :: string
  OUTPUT_PREFIXO :: string
  NOME_MODELO :: string
  NOME_TABELA :: string
  AWS_REGION :: string

text \<open>The values when no environment variable is set.\<close>

definition config_padrao :: config where
  "config_padrao =
     \<lparr>BUCKET = ''fotos-esp32'', INPUT_PREFIXO = '''', OUTPUT_PREFIXO = ''resultados/'',
      NOME_MODELO = ''yolov8n.pt'', NOME_TABELA = ''yolo-resultados'',
      AWS_REGION = ''sa-east-1''\<rparr>"

subsection \<open>Data\<close>

type_synonym bytes = string

type_synonym metadados = "string \<rightharpoonup> string"

text \<open>One entry of a listing page, and a page, whose \<^verbatim>\<open>Contents\<close> may be missing.\<close>

record objeto =
  Key :: string

record pagina =
  Contents :: "objeto list option"

text \<open>The answer of \<^verbatim>\<open>head_object\<close>, whose \<^verbatim>\<open>Metadata\<close> may be missing.\<close>

record resposta_head =
  Metadata :: "metadados option"

text \<open>
  \<open>Decimal s\<close> stands for the value of \<^verbatim>\<open>Decimal(s)\<close> when the constructor accepts
  \<open>s\<close>; whether it does is asked of the environment.
\<close>

datatype decimal = Decimal string

text \<open>The dictionary handed to \<^verbatim>\<open>put_item\<close> (lines 86 to 93).\<close>

record item =
  imagem :: string
  outputKey :: string
  qtd_pessoas :: int
  bateria :: "decimal option"
  hora_imagem :: "string option"
  hora_execucao :: string

text \<open>The lines the script prints, one constructor for each \<^verbatim>\<open>print\<close> of the source.\<close>

datatype linha =
    Listando string string
  | NenhumaImagem
  | Baixando string string
  | Enviando string string string
  | FalhaMetadados string erro
  | Gravado string
  | FalhaGravar erro
  | ErroProcessar string erro
  | ErroS3 erro
  | Erro erro

subsection \<open>The environment and the state\<close>

text \<open>
  The services, as the script calls them:
  \<^item> \<open>paginate bucket prefix\<close>: the pages of the listing, or the exception of the
    paginator;
  \<^item> \<open>download_file bucket key local_path\<close>: the bytes the download leaves in the
    local file, or its exception;
  \<^item> \<open>upload_file local_path bucket key\<close> and \<open>put_item item\<close>: the exception, if any;
  \<^item> \<open>head_object bucket key\<close>: the answer, or the exception;
  \<^item> \<open>yolo model image\<close>: lines 126 to 133 on the bytes of the local file, the number
    of boxes and the annotated image, or the exception of whichever call raised;
  \<^item> \<open>imwrite path image\<close>: the exception, or whether the file was written;
  \<^item> \<open>agora zone\<close>: the time of line 143 in ISO format, or the exception;
  \<^item> \<open>decimal_invalido s\<close>: the exception of \<^verbatim>\<open>Decimal(s)\<close>, if any;
  \<^item> \<open>remove_falha path\<close>: the exception of \<^verbatim>\<open>os.remove\<close> on a file that exists, if
    any.

  The state: the files of the working directory, the objects the script has stored
  (by bucket and key), the records \<^verbatim>\<open>put_item\<close> has written, oldest first, and the
  printed lines, oldest first.
\<close>

record ambiente =
  cfg :: config
  paginate :: "string \<Rightarrow> string \<Rightarrow> erro + pagina list"
  download_file :: "string \<Rightarrow> string \<Rightarrow> string \<Rightarrow> erro + bytes"
  upload_file :: "string \<Rightarrow> string \<Rightarrow> string \<Rightarrow> erro option"
  head_object :: "string \<Rightarrow> string \<Rightarrow> erro + resposta_head"
  put_item :: "item \<Rightarrow> erro option"
  yolo :: "string \<Rightarrow> bytes \<Rightarrow> erro + nat \<times> bytes"
  imwrite :: "string \<Rightarrow> bytes \<Rightarrow> erro + bool"
  agora :: "string \<Rightarrow> erro + string"
  decimal_invalido :: "string \<Rightarrow> erro option"
  remove_falha :: "string \<Rightarrow> erro option"

record estado =
  arquivos :: "string \<rightharpoonup> bytes"
  objetos :: "string \<times> string \<rightharpoonup> bytes"
  tabela :: "item list"
  saida :: "linha list"

type_synonym 'a acao = "estado \<Rightarrow> (erro + 'a) \<times> estado"

text \<open>Sequencing: the second statement runs only when the first one did not raise.\<close>

definition entao :: "'a acao \<Rightarrow> ('a \<Rightarrow> 'b acao) \<Rightarrow> 'b acao" where
  "entao m f s = (case m s of (Inl e, s') \<Rightarrow> (Inl e, s') | (Inr x, s') \<Rightarrow> f x s')"

definition print :: "linha \<Rightarrow> unit acao" where
  "print l s = (Inr (), s\<lparr>saida := saida s @ [l]\<rparr>)"

subsection \<open>Strings and paths\<close>

text \<open>
  \<^verbatim>\<open>str.lower\<close> on the letters A to Z. A key is its UTF-8 bytes here; the bytes of
  the four characters the script looks for are ASCII, and no other character
  lowercases to one of them, so the other bytes are left as they are.
\<close>

definition lower_char :: "char \<Rightarrow> char" where
  "lower_char c =
     (case map_of (zip ''ABCDEFGHIJKLMNOPQRSTUVWXYZ'' ''abcdefghijklmnopqrstuvwxyz'') c of
        None \<Rightarrow> c
      | Some d \<Rightarrow> d)"

definition lower :: "string \<Rightarrow> string" where
  "lower s = map lower_char s"

text \<open>\<^verbatim>\<open>s.endswith(suf)\<close>, and \<^verbatim>\<open>s.endswith(t)\<close> for a tuple \<open>t\<close>.\<close>

definition endswith :: "string \<Rightarrow> string \<Rightarrow> bool" where
  "endswith s suf \<longleftrightarrow> length suf \<le> length s \<and> drop (length s - length suf) s = suf"

definition endswith_tuple :: "string \<Rightarrow> string list \<Rightarrow> bool" where
  "endswith_tuple s sufs \<longleftrightarrow> list_ex (endswith s) sufs"

text \<open>
  \<^verbatim>\<open>os.path.basename\<close> of \<^verbatim>\<open>posixpath\<close>: what follows the last slash, the whole
  path when it has none.
\<close>

definition basename :: "string \<Rightarrow> string" where
  "basename p = rev (takeWhile (\<lambda>c. c \<noteq> CHR ''/'') (rev p))"

subsection \<open>\<^verbatim>\<open>lista_imagens\<close> (lines 20 to 31)\<close>

text \<open>
  The two nested loops, with \<^verbatim>\<open>lista_img\<close> as the accumulator. A listing that
  raises, on whichever page, leaves the function with the exception.
\<close>

fun laco_objetos :: "objeto list \<Rightarrow> string list \<Rightarrow> string list" where
  "laco_objetos [] lista_img = lista_img"
| "laco_objetos (obj # objs) lista_img =
     (let key = Key obj in
      if endswith_tuple (lower key) [''.jpg'', ''.png'']
      then laco_objetos objs (lista_img @ [key])
      else laco_objetos objs lista_img)"

fun laco_paginas :: "pagina list \<Rightarrow> string list \<Rightarrow> string list" where
  "laco_paginas [] lista_img = lista_img"
| "laco_paginas (pag # pags) lista_img =
     laco_paginas pags
       (laco_objetos (case Contents pag of None \<Rightarrow> [] | Some objs \<Rightarrow> objs) lista_img)"

definition lista_imagens :: "ambiente \<Rightarrow> string \<Rightarrow> string \<Rightarrow> erro + string list" where
  "lista_imagens env bucket pfx =
     (case paginate env bucket pfx of
        Inl e \<Rightarrow> Inl e
      | Inr pags \<Rightarrow> Inr (laco_paginas pags []))"

subsection \<open>The transfer gateway (lines 34 to 55) and the local files\<close>

text \<open>
  A download that succeeds leaves the object's content at \<open>local_path\<close>. An upload
  reads the local file, and raises when there is none; when it succeeds the bucket
  holds the file's content under \<open>key\<close>.
\<close>

definition download_s3 :: "ambiente \<Rightarrow> string \<Rightarrow> string \<Rightarrow> string \<Rightarrow> unit acao" where
  "download_s3 env bucket key local_path s =
     (case download_file env bucket key local_path of
        Inl e \<Rightarrow> (Inl e, s)
      | Inr conteudo \<Rightarrow> (Inr (), s\<lparr>arquivos := (arquivos s)(local_path \<mapsto> conteudo)\<rparr>))"

definition upload_s3 :: "ambiente \<Rightarrow> string \<Rightarrow> string \<Rightarrow> string \<Rightarrow> unit acao" where
  "upload_s3 env local_path bucket key s =
     (case arquivos s local_path of
        None \<Rightarrow> (Inl (Excecao ''FileNotFoundError''), s)
      | Some conteudo \<Rightarrow>
          (case upload_file env local_path bucket key of
             Some e \<Rightarrow> (Inl e, s)
           | None \<Rightarrow> (Inr (), s\<lparr>objetos := (objetos s)((bucket, key) \<mapsto> conteudo)\<rparr>)))"

text \<open>
  \<^verbatim>\<open>os.remove\<close> raises when the file does not exist, and when the system refuses.
\<close>

definition os_remove :: "ambiente \<Rightarrow> string \<Rightarrow> unit acao" where
  "os_remove env path s =
     (case arquivos s path of
        None \<Rightarrow> (Inl (Excecao ''FileNotFoundError''), s)
      | Some _ \<Rightarrow>
          (case remove_falha env path of
             Some e \<Rightarrow> (Inl e, s)
           | None \<Rightarrow> (Inr (), s\<lparr>arquivos := (arquivos s)(path := None)\<rparr>)))"

subsection \<open>\<^verbatim>\<open>pega_metadados\<close> (lines 58 to 72)\<close>

text \<open>The handler is \<^verbatim>\<open>except ClientError\<close>: any other exception leaves the function.\<close>

definition pega_metadados :: "ambiente \<Rightarrow> string \<Rightarrow> string \<Rightarrow> metadados acao" where
  "pega_metadados env bucket key s =
     (case head_object env bucket key of
        Inr head \<Rightarrow> (Inr (case Metadata head of None \<Rightarrow> Map.empty | Some m \<Rightarrow> m), s)
      | Inl (ClientError msg) \<Rightarrow>
          (Inr Map.empty, snd (print (FalhaMetadados key (ClientError msg)) s))
      | Inl (Excecao msg) \<Rightarrow> (Inl (Excecao msg), s))"

subsection \<open>\<^verbatim>\<open>salva_dynamo\<close> (lines 75 to 104)\<close>

text \<open>
  Lines 86 to 97: the dictionary, then the two optional fields. The test
  \<^verbatim>\<open>if metadados.get(k)\<close> holds when the value is there and is not the empty
  string. \<^verbatim>\<open>Decimal\<close> raises on a string that is not a decimal numeral.
\<close>

definition monta_item ::
    "ambiente \<Rightarrow> string \<Rightarrow> string \<Rightarrow> nat \<Rightarrow> metadados \<Rightarrow> string \<Rightarrow> erro + item" where
  "monta_item env imagem_key output_key n_pessoas metadados hora =
     (let item0 = \<lparr>imagem = imagem_key, outputKey = output_key,
                    qtd_pessoas = int n_pessoas, bateria = None, hora_imagem = None,
                    hora_execucao = hora\<rparr>;
          item1 = (case metadados ''battery-level'' of
                     None \<Rightarrow> Inr item0
                   | Some v \<Rightarrow>
                       if v = [] then Inr item0
                       else (case decimal_invalido env v of
                               Some e \<Rightarrow> Inl e
                             | None \<Rightarrow> Inr (item0\<lparr>bateria := Some (Decimal v)\<rparr>)))
      in case item1 of
           Inl e \<Rightarrow> Inl e
         | Inr it \<Rightarrow>
             (case metadados ''device-timestamp'' of
                None \<Rightarrow> Inr it
              | Some v \<Rightarrow> if v = [] then Inr it else Inr (it\<lparr>hora_imagem := Some v\<rparr>)))"

text \<open>
  Lines 99 to 104: the write. A \<^verbatim>\<open>ClientError\<close> is printed and raised again; any
  other exception is not caught here.
\<close>

definition salva_dynamo ::
    "ambiente \<Rightarrow> string \<Rightarrow> string \<Rightarrow> nat \<Rightarrow> metadados \<Rightarrow> string \<Rightarrow> unit acao" where
  "salva_dynamo env imagem_key output_key n_pessoas metadados hora s =
     (case monta_item env imagem_key output_key n_pessoas metadados hora of
        Inl e \<Rightarrow> (Inl e, s)
      | Inr it \<Rightarrow>
          (case put_item env it of
             None \<Rightarrow> print (Gravado imagem_key) (s\<lparr>tabela := tabela s @ [it]\<rparr>)
           | Some (ClientError msg) \<Rightarrow>
               (Inl (ClientError msg), snd (print (FalhaGravar (ClientError msg)) s))
           | Some (Excecao msg) \<Rightarrow> (Inl (Excecao msg), s)))"

subsection \<open>\<^verbatim>\<open>processa_imagem\<close> (lines 107 to 156)\<close>

text \<open>The three names the function derives from its argument (lines 119, 120, 137).\<close>

definition local_input :: "string \<Rightarrow> string" where
  "local_input input_key = basename input_key"

definition local_output :: "string \<Rightarrow> string" where
  "local_output input_key = ''out_'' @ local_input input_key"

definition output_key :: "config \<Rightarrow> string \<Rightarrow> string" where
  "output_key c input_key = OUTPUT_PREFIXO c @ basename (local_output input_key)"

text \<open>
  Lines 126 to 133: the model is loaded, the file is read and rotated, and the
  engine gives the number of boxes and the annotated image. \<^verbatim>\<open>cv2.imread\<close> gives
  \<^verbatim>\<open>None\<close> for a file it cannot read, and \<^verbatim>\<open>cv2.rotate\<close> raises on it.
\<close>

definition deteccao :: "ambiente \<Rightarrow> string \<Rightarrow> (nat \<times> bytes) acao" where
  "deteccao env path s =
     (case arquivos s path of
        None \<Rightarrow> (Inl (Excecao ''cv2.error''), s)
      | Some img \<Rightarrow>
          (case yolo env (NOME_MODELO (cfg env)) img of
             Inl e \<Rightarrow> (Inl e, s)
           | Inr r \<Rightarrow> (Inr r, s)))"

text \<open>
  Line 134: \<^verbatim>\<open>cv2.imwrite\<close> raises, or returns \<^verbatim>\<open>False\<close> and writes nothing, or
  writes the file; its result is not looked at.
\<close>

definition cv2_imwrite :: "ambiente \<Rightarrow> string \<Rightarrow> bytes \<Rightarrow> unit acao" where
  "cv2_imwrite env path img s =
     (case imwrite env path img of
        Inl e \<Rightarrow> (Inl e, s)
      | Inr False \<Rightarrow> (Inr (), s)
      | Inr True \<Rightarrow> (Inr (), s\<lparr>arquivos := (arquivos s)(path \<mapsto> img)\<rparr>))"

text \<open>Line 143: the time zone may be unknown to the system, the clock gives a string.\<close>

definition hora_atual :: "ambiente \<Rightarrow> string acao" where
  "hora_atual env s = (agora env ''America/Sao_Paulo'', s)"

definition processa_imagem :: "ambiente \<Rightarrow> string \<Rightarrow> unit acao" where
  "processa_imagem env input_key =
     entao (print (Baixando (BUCKET (cfg env)) input_key)) (\<lambda>_.
     entao (download_s3 env (BUCKET (cfg env)) input_key (local_input input_key)) (\<lambda>_.
     entao (deteccao env (local_input input_key)) (\<lambda>(qtd_pessoas, img_final).
     entao (cv2_imwrite env (local_output input_key) img_final) (\<lambda>_.
     entao (print (Enviando (local_output input_key) (BUCKET (cfg env))
                     (output_key (cfg env) input_key))) (\<lambda>_.
     entao (upload_s3 env (local_output input_key) (BUCKET (cfg env))
              (output_key (cfg env) input_key)) (\<lambda>_.
     entao (pega_metadados env (BUCKET (cfg env)) input_key) (\<lambda>metadados.
     entao (hora_atual env) (\<lambda>hora.
     entao (salva_dynamo env input_key (output_key (cfg env) input_key) qtd_pessoas
              metadados hora) (\<lambda>_.
     entao (os_remove env (local_input input_key)) (\<lambda>_.
     os_remove env (local_output input_key)))))))))))"

subsection \<open>\<^verbatim>\<open>main\<close> (lines 159 to 171) and the script (lines 174 to 182)\<close>




subsection \<open>What the specification says, in its own words\<close>

text \<open>
  The keys of a listing in listing order, and the keys the specification accepts:
  those whose lowercased form has \<^verbatim>\<open>.jpg\<close> or \<^verbatim>\<open>.png\<close> as a suffix.
\<close>

definition chaves_listadas :: "pagina list \<Rightarrow> string list" where
  "chaves_listadas pags =
     concat (map (\<lambda>pag. case Contents pag of None \<Rightarrow> [] | Some objs \<Rightarrow> map Key objs) pags)"

definition extensao_aceita :: "string \<Rightarrow> bool" where
  "extensao_aceita key \<longleftrightarrow> suffix ''.jpg'' (lower key) \<or> suffix ''.png'' (lower key)"


subsection \<open>Example runs\<close>

text \<open>
  A run in which every service answers: one page with three keys, a download that
  gives the bytes of the key, two people found, and the metadata of the capture
  device.
\<close>

definition estado_inicial :: estado where
  "estado_inicial = \<lparr>arquivos = Map.empty, objetos = Map.empty, tabela = [], saida = []\<rparr>"

definition ambiente_ok :: ambiente where
  "ambiente_ok =
     \<lparr>cfg = config_padrao,
      paginate = (\<lambda>_ _. Inr [\<lparr>Contents = Some [\<lparr>Key = ''a.jpg''\<rparr>, \<lparr>Key = ''b.txt''\<rparr>,
                                                \<lparr>Key = ''c.PNG''\<rparr>]\<rparr>]),
      download_file = (\<lambda>_ key _. Inr key),
      upload_file = (\<lambda>_ _ _. None),
      head_object = (\<lambda>_ _. Inr \<lparr>Metadata = Some [''battery-level'' \<mapsto> ''87.5'',
                                 ''device-timestamp'' \<mapsto> ''2024-01-01T10:00:00'']\<rparr>),
      put_item = (\<lambda>_. None),
      yolo = (\<lambda>_ img. Inr (2, ''anotada '' @ img)),
      imwrite = (\<lambda>_ _. Inr True),
      agora = (\<lambda>_. Inr ''2025-06-01T12:00:00-03:00''),
      decimal_invalido = (\<lambda>_. None),
      remove_falha = (\<lambda>_. None)\<rparr>"

text \<open>The same run with one service failing.\<close>

definition ambiente_sem_download :: ambiente where
  "ambiente_sem_download =
     ambiente_ok\<lparr>download_file :=
       (\<lambda>_ key _. if key = ''c.PNG'' then Inr key else Inl (ClientError ''404''))\<rparr>"

definition ambiente_sem_deteccao :: ambiente where
  "ambiente_sem_deteccao = ambiente_ok\<lparr>yolo := (\<lambda>_ _. Inl (Excecao ''RuntimeError''))\<rparr>"

definition ambiente_sem_rede_no_head :: ambiente where
  "ambiente_sem_rede_no_head =
     ambiente_ok\<lparr>head_object := (\<lambda>_ _. Inl (Excecao ''EndpointConnectionError''))\<rparr>"

definition ambiente_head_404 :: ambiente where
  "ambiente_head_404 = ambiente_ok\<lparr>head_object := (\<lambda>_ _. Inl (ClientError ''404''))\<rparr>"

definition ambiente_sem_gravacao :: ambiente where
  "ambiente_sem_gravacao = ambiente_ok\<lparr>put_item := (\<lambda>_. Some (ClientError ''503''))\<rparr>"

definition ambiente_sem_escrita :: ambiente where
  "ambiente_sem_escrita = ambiente_ok\<lparr>imwrite := (\<lambda>_ _. Inr False)\<rparr>"

subsection \<open>Reasoning about actions\<close>

text \<open>
  \<open>wp m Q E s\<close>: started in \<open>s\<close>, the action \<open>m\<close> ends either normally, in a state
  and with a value that satisfy \<open>Q\<close>, or with an exception and a state that satisfy \<open>E\<close>.
\<close>

definition wp ::
    "'a acao \<Rightarrow> ('a \<Rightarrow> estado \<Rightarrow> bool) \<Rightarrow> (erro \<Rightarrow> estado \<Rightarrow> bool) \<Rightarrow> estado \<Rightarrow> bool" where
  "wp m Q E s = (case m s of (Inr x, t) \<Rightarrow> Q x t | (Inl e, t) \<Rightarrow> E e t)"

section \<open>Properties\<close>

subsection \<open>Rules for \<open>wp\<close>\<close>

lemma wp_resultado: "wp m (\<lambda>x t. P (Inr x, t)) (\<lambda>e t. P (Inl e, t)) s \<Longrightarrow> P (m s)"
  by (auto simp: wp_def split: prod.splits sum.splits)

lemma wp_entao [simp]: "wp (entao m f) Q E s = wp m (\<lambda>x. wp (f x) Q E) E s"
  by (auto simp: wp_def entao_def split: prod.splits sum.splits)

lemma wp_print [simp]: "wp (print l) Q E s = Q () (s\<lparr>saida := saida s @ [l]\<rparr>)"
  by (simp add: wp_def print_def)

lemma wp_download_s3 [simp]:
  "wp (download_s3 env b k p) Q E s =
     (case download_file env b k p of
        Inl e \<Rightarrow> E e s
      | Inr c \<Rightarrow> Q () (s\<lparr>arquivos := (arquivos s)(p \<mapsto> c)\<rparr>))"
  by (simp add: wp_def download_s3_def split: sum.splits)

lemma wp_upload_s3 [simp]:
  "wp (upload_s3 env p b k) Q E s =
     (case arquivos s p of
        None \<Rightarrow> E (Excecao ''FileNotFoundError'') s
      | Some c \<Rightarrow>
          (case upload_file env p b k of
             Some e \<Rightarrow> E e s
           | None \<Rightarrow> Q () (s\<lparr>objetos := (objetos s)((b, k) \<mapsto> c)\<rparr>)))"
  by (simp add: wp_def upload_s3_def split: option.splits)

lemma wp_os_remove [simp]:
  "wp (os_remove env p) Q E s =
     (case arquivos s p of
        None \<Rightarrow> E (Excecao ''FileNotFoundError'') s
      | Some c \<Rightarrow>
          (case remove_falha env p of
             Some e \<Rightarrow> E e s
           | None \<Rightarrow> Q () (s\<lparr>arquivos := (arquivos s)(p := None)\<rparr>)))"
  by (simp add: wp_def os_remove_def split: option.splits)

lemma wp_pega_metadados [simp]:
  "wp (pega_metadados env b k) Q E s =
     (case head_object env b k of
        Inr head \<Rightarrow> Q (case Metadata head of None \<Rightarrow> Map.empty | Some m \<Rightarrow> m) s
      | Inl (ClientError msg) \<Rightarrow>
          Q Map.empty (s\<lparr>saida := saida s @ [FalhaMetadados k (ClientError msg)]\<rparr>)
      | Inl (Excecao msg) \<Rightarrow> E (Excecao msg) s)"
  by (simp add: wp_def pega_metadados_def print_def split: sum.splits erro.splits)

lemma wp_salva_dynamo [simp]:
  "wp (salva_dynamo env ik ok n md h) Q E s =
     (case monta_item env ik ok n md h of
        Inl e \<Rightarrow> E e s
      | Inr it \<Rightarrow>
          (case put_item env it of
             None \<Rightarrow> Q () (s\<lparr>tabela := tabela s @ [it], saida := saida s @ [Gravado ik]\<rparr>)
           | Some (ClientError msg) \<Rightarrow>
               E (ClientError msg) (s\<lparr>saida := saida s @ [FalhaGravar (ClientError msg)]\<rparr>)
           | Some (Excecao msg) \<Rightarrow> E (Excecao msg) s))"
  by (simp add: wp_def salva_dynamo_def print_def split: sum.splits option.splits erro.splits)

lemma wp_deteccao [simp]:
  "wp (deteccao env p) Q E s =
     (case arquivos s p of
        None \<Rightarrow> E (Excecao ''cv2.error'') s
      | Some img \<Rightarrow>
          (case yolo env (NOME_MODELO (cfg env)) img of
             Inl e \<Rightarrow> E e s
           | Inr r \<Rightarrow> Q r s))"
  by (simp add: wp_def deteccao_def split: sum.splits option.splits)

lemma wp_cv2_imwrite [simp]:
  "wp (cv2_imwrite env p img) Q E s =
     (case imwrite env p img of
        Inl e \<Rightarrow> E e s
      | Inr escrito \<Rightarrow>
          Q () (if escrito then s\<lparr>arquivos := (arquivos s)(p \<mapsto> img)\<rparr> else s))"
  by (simp add: wp_def cv2_imwrite_def split: sum.splits bool.splits)

lemma wp_hora_atual [simp]:
  "wp (hora_atual env) Q E s =
     (case agora env ''America/Sao_Paulo'' of Inl e \<Rightarrow> E e s | Inr h \<Rightarrow> Q h s)"
  by (simp add: wp_def hora_atual_def split: sum.splits)

lemmas divide = sum.splits option.splits erro.splits prod.splits if_splits

lemmas passos = print_def download_s3_def upload_s3_def os_remove_def pega_metadados_def
  salva_dynamo_def deteccao_def cv2_imwrite_def hora_atual_def

lemmas exemplos = ambiente_ok_def ambiente_sem_download_def ambiente_sem_deteccao_def
  ambiente_sem_rede_no_head_def ambiente_head_404_def ambiente_sem_gravacao_def
  ambiente_sem_escrita_def estado_inicial_def config_padrao_def

text \<open>The equations that run the item processor on a concrete environment and state.\<close>

lemmas avalia = processa_imagem_def entao_def passos exemplos local_input_def local_output_def
  output_key_def basename_def monta_item_def Let_def

lemma wp_so_falha:
  assumes "wp m (\<lambda>x t. False) E s"
  shows "\<exists>e. fst (m s) = Inl e \<and> E e (snd (m s))"
proof (cases "m s")
  case (Pair r t)
  with assms show ?thesis by (cases r) (simp_all add: wp_def)
qed

subsection \<open>The listing\<close>

lemma endswith_suffix: "endswith s suf \<longleftrightarrow> suffix suf s"
  unfolding endswith_def
  by (metis suffix_drop suffix_length_le suffix_take append_take_drop_id append_eq_conv_conj)

lemma aceita_iff: "endswith_tuple (lower key) [''.jpg'', ''.png''] \<longleftrightarrow> extensao_aceita key"
  by (simp add: endswith_tuple_def extensao_aceita_def endswith_suffix)

lemma laco_objetos_filter:
  "laco_objetos objs acc = acc @ filter extensao_aceita (map Key objs)"
  by (induction objs arbitrary: acc) (simp_all add: aceita_iff Let_def)

lemma laco_paginas_filter:
  "laco_paginas pags acc = acc @ filter extensao_aceita (chaves_listadas pags)"
  by (induction pags arbitrary: acc)
     (simp_all add: laco_objetos_filter chaves_listadas_def split: option.splits)

text \<open>
  C7. When the listing does not raise, \<open>lista_imagens\<close> returns the listed keys whose
  lowercased form ends in \<^verbatim>\<open>.jpg\<close> or \<^verbatim>\<open>.png\<close>, each as it was listed and in listing
  order; when the listing raises, so does \<open>lista_imagens\<close>.
\<close>

theorem lista_imagens_filtra:
  "lista_imagens env bucket pfx =
     (case paginate env bucket pfx of
        Inl e \<Rightarrow> Inl e
      | Inr pags \<Rightarrow> Inr (filter extensao_aceita (chaves_listadas pags)))"
  by (simp add: lista_imagens_def laco_paginas_filter split: sum.splits)

text \<open>The listing \<^verbatim>\<open>a.jpg\<close>, \<^verbatim>\<open>b.txt\<close>, \<^verbatim>\<open>c.PNG\<close> of the specification.\<close>

theorem lista_imagens_filtra_witness:
  "lista_imagens ambiente_ok ''fotos-esp32'' '''' = Inr [''a.jpg'', ''c.PNG'']"
  using lista_imagens_filtra [of ambiente_ok "''fotos-esp32''" "''''"]
  by (simp add: ambiente_ok_def chaves_listadas_def extensao_aceita_def lower_def
      lower_char_def suffix_def)

subsection \<open>The batch loop\<close>








subsection \<open>Names and items\<close>

lemma basename_sem_barra:
  assumes "CHR ''/'' \<notin> set p"
  shows "basename p = p"
proof -
  have h: "takeWhile (\<lambda>c. c \<noteq> CHR ''/'') (rev p) = rev p"
    using assms by (auto simp: takeWhile_eq_all_conv)
  show ?thesis unfolding basename_def h by simp
qed

lemma barra_fora_basename: "CHR ''/'' \<notin> set (basename p)"
  unfolding basename_def using set_takeWhileD by fastforce

lemma basename_local_output: "basename (local_output k) = local_output k"
  by (rule basename_sem_barra) (simp add: local_output_def local_input_def barra_fora_basename)

lemma output_key_eq: "output_key c k = OUTPUT_PREFIXO c @ ''out_'' @ basename k"
  by (simp add: output_key_def basename_local_output) (simp add: local_output_def local_input_def)

lemma local_output_neq [simp]: "local_output k \<noteq> local_input k" "local_input k \<noteq> local_output k"
  by (simp_all add: local_output_def)

lemma monta_item_campos:
  assumes "monta_item env ik ok n md h = Inr it"
  shows "imagem it = ik \<and> outputKey it = ok \<and> qtd_pessoas it = int n \<and> hora_execucao it = h"
  using assms by (auto simp: monta_item_def Let_def split: divide)

text \<open>
  What a completed item tells: every service answered, and the state it leaves.
\<close>

lemma processa_sucesso:
  "fst (processa_imagem env k s) = Inr () \<longrightarrow>
     (\<exists>c n a cont md h it.
        download_file env (BUCKET (cfg env)) k (local_input k) = Inr c
      \<and> yolo env (NOME_MODELO (cfg env)) c = Inr (n, a)
      \<and> (imwrite env (local_output k) a = Inr True \<and> cont = a
         \<or> imwrite env (local_output k) a = Inr False \<and> arquivos s (local_output k) = Some cont)
      \<and> upload_file env (local_output k) (BUCKET (cfg env)) (output_key (cfg env) k) = None
      \<and> fst (pega_metadados env (BUCKET (cfg env)) k s) = Inr md
      \<and> agora env ''America/Sao_Paulo'' = Inr h
      \<and> monta_item env k (output_key (cfg env) k) n md h = Inr it
      \<and> put_item env it = None
      \<and> remove_falha env (local_input k) = None
      \<and> remove_falha env (local_output k) = None
      \<and> tabela (snd (processa_imagem env k s)) = tabela s @ [it]
      \<and> objetos (snd (processa_imagem env k s)) =
          (objetos s)((BUCKET (cfg env), output_key (cfg env) k) \<mapsto> cont)
      \<and> arquivos (snd (processa_imagem env k s)) (local_input k) = None
      \<and> arquivos (snd (processa_imagem env k s)) (local_output k) = None)"
  apply (rule wp_resultado [where P = "\<lambda>r. fst r = Inr () \<longrightarrow>
     (\<exists>c n a cont md h it.
        download_file env (BUCKET (cfg env)) k (local_input k) = Inr c
      \<and> yolo env (NOME_MODELO (cfg env)) c = Inr (n, a)
      \<and> (imwrite env (local_output k) a = Inr True \<and> cont = a
         \<or> imwrite env (local_output k) a = Inr False \<and> arquivos s (local_output k) = Some cont)
      \<and> upload_file env (local_output k) (BUCKET (cfg env)) (output_key (cfg env) k) = None
      \<and> fst (pega_metadados env (BUCKET (cfg env)) k s) = Inr md
      \<and> agora env ''America/Sao_Paulo'' = Inr h
      \<and> monta_item env k (output_key (cfg env) k) n md h = Inr it
      \<and> put_item env it = None
      \<and> remove_falha env (local_input k) = None
      \<and> remove_falha env (local_output k) = None
      \<and> tabela (snd r) = tabela s @ [it]
      \<and> objetos (snd r) =
          (objetos s)((BUCKET (cfg env), output_key (cfg env) k) \<mapsto> cont)
      \<and> arquivos (snd r) (local_input k) = None
      \<and> arquivos (snd r) (local_output k) = None)"])
  unfolding processa_imagem_def
  apply (auto simp: pega_metadados_def split: divide)
  done

text \<open>
  A record is written only by a \<^verbatim>\<open>put_item\<close> that succeeds, after the download, the
  detection and the upload have succeeded, and only once.
\<close>

lemma registro_so_apos_upload:
  "tabela (snd (processa_imagem env k s)) = tabela s
   \<or> (\<exists>c n a cont it.
        download_file env (BUCKET (cfg env)) k (local_input k) = Inr c
      \<and> yolo env (NOME_MODELO (cfg env)) c = Inr (n, a)
      \<and> (imwrite env (local_output k) a = Inr True \<and> cont = a
         \<or> imwrite env (local_output k) a = Inr False \<and> arquivos s (local_output k) = Some cont)
      \<and> upload_file env (local_output k) (BUCKET (cfg env)) (output_key (cfg env) k) = None
      \<and> put_item env it = None
      \<and> tabela (snd (processa_imagem env k s)) = tabela s @ [it]
      \<and> objetos (snd (processa_imagem env k s)) =
          (objetos s)((BUCKET (cfg env), output_key (cfg env) k) \<mapsto> cont))"
  apply (rule wp_resultado [where P = "\<lambda>r. tabela (snd r) = tabela s
   \<or> (\<exists>c n a cont it.
        download_file env (BUCKET (cfg env)) k (local_input k) = Inr c
      \<and> yolo env (NOME_MODELO (cfg env)) c = Inr (n, a)
      \<and> (imwrite env (local_output k) a = Inr True \<and> cont = a
         \<or> imwrite env (local_output k) a = Inr False \<and> arquivos s (local_output k) = Some cont)
      \<and> upload_file env (local_output k) (BUCKET (cfg env)) (output_key (cfg env) k) = None
      \<and> put_item env it = None
      \<and> tabela (snd r) = tabela s @ [it]
      \<and> objetos (snd r) =
          (objetos s)((BUCKET (cfg env), output_key (cfg env) k) \<mapsto> cont))"])
  unfolding processa_imagem_def
  apply (auto split: divide)
  done

text \<open>
  When \<^verbatim>\<open>cv2.imwrite\<close> returns \<^verbatim>\<open>False\<close> and no file of that name is there, the upload
  finds no file to send.
\<close>

lemma sem_arquivo_de_saida:
  assumes "download_file env (BUCKET (cfg env)) k (local_input k) = Inr c"
    and "yolo env (NOME_MODELO (cfg env)) c = Inr (n, a)"
    and "imwrite env (local_output k) a = Inr False"
    and "arquivos s (local_output k) = None"
  shows "wp (processa_imagem env k) (\<lambda>x t. False)
           (\<lambda>e' t. e' = Excecao ''FileNotFoundError'' \<and> tabela t = tabela s) s"
  unfolding processa_imagem_def using assms by simp

text \<open>
  C2. When \<open>processa_imagem\<close> completes, it has written exactly one record. Whatever
  the outcome, either no record is written, or exactly one is, by a \<^verbatim>\<open>put_item\<close> that
  succeeded after the download, the detection and the upload succeeded. So an item
  that fails before the persistence step writes no record: when the download fails,
  when the detection fails on the downloaded image, when writing the annotated image
  raises, when the upload finds no local file, or when the upload itself fails, the
  item fails and the table is unchanged.
\<close>

theorem um_registro_por_item:
  "(fst (processa_imagem env k s) = Inr () \<longrightarrow>
      (\<exists>it. tabela (snd (processa_imagem env k s)) = tabela s @ [it]))
   \<and> (tabela (snd (processa_imagem env k s)) = tabela s
      \<or> (\<exists>c n a cont it.
           download_file env (BUCKET (cfg env)) k (local_input k) = Inr c
         \<and> yolo env (NOME_MODELO (cfg env)) c = Inr (n, a)
         \<and> (imwrite env (local_output k) a = Inr True \<and> cont = a
            \<or> imwrite env (local_output k) a = Inr False
              \<and> arquivos s (local_output k) = Some cont)
         \<and> upload_file env (local_output k) (BUCKET (cfg env)) (output_key (cfg env) k) = None
         \<and> put_item env it = None
         \<and> tabela (snd (processa_imagem env k s)) = tabela s @ [it]
         \<and> objetos (snd (processa_imagem env k s)) =
             (objetos s)((BUCKET (cfg env), output_key (cfg env) k) \<mapsto> cont)))
   \<and> (download_file env (BUCKET (cfg env)) k (local_input k) = Inl e \<longrightarrow>
        fst (processa_imagem env k s) = Inl e
        \<and> tabela (snd (processa_imagem env k s)) = tabela s)
   \<and> (download_file env (BUCKET (cfg env)) k (local_input k) = Inr c
        \<and> yolo env (NOME_MODELO (cfg env)) c = Inl e \<longrightarrow>
        fst (processa_imagem env k s) = Inl e
        \<and> tabela (snd (processa_imagem env k s)) = tabela s)
   \<and> (download_file env (BUCKET (cfg env)) k (local_input k) = Inr c
        \<and> yolo env (NOME_MODELO (cfg env)) c = Inr (n, a)
        \<and> imwrite env (local_output k) a = Inl e \<longrightarrow>
        fst (processa_imagem env k s) = Inl e
        \<and> tabela (snd (processa_imagem env k s)) = tabela s)
   \<and> (download_file env (BUCKET (cfg env)) k (local_input k) = Inr c
        \<and> yolo env (NOME_MODELO (cfg env)) c = Inr (n, a)
        \<and> imwrite env (local_output k) a = Inr False
        \<and> arquivos s (local_output k) = None \<longrightarrow>
        fst (processa_imagem env k s) = Inl (Excecao ''FileNotFoundError'')
        \<and> tabela (snd (processa_imagem env k s)) = tabela s)
   \<and> (upload_file env (local_output k) (BUCKET (cfg env)) (output_key (cfg env) k) = Some e \<longrightarrow>
        (\<exists>e'. fst (processa_imagem env k s) = Inl e')
        \<and> tabela (snd (processa_imagem env k s)) = tabela s)"
proof (intro conjI impI)
  assume "fst (processa_imagem env k s) = Inr ()"
  with processa_sucesso [of env k s]
  show "\<exists>it. tabela (snd (processa_imagem env k s)) = tabela s @ [it]" by blast
next
  show "tabela (snd (processa_imagem env k s)) = tabela s
      \<or> (\<exists>c n a cont it.
           download_file env (BUCKET (cfg env)) k (local_input k) = Inr c
         \<and> yolo env (NOME_MODELO (cfg env)) c = Inr (n, a)
         \<and> (imwrite env (local_output k) a = Inr True \<and> cont = a
            \<or> imwrite env (local_output k) a = Inr False
              \<and> arquivos s (local_output k) = Some cont)
         \<and> upload_file env (local_output k) (BUCKET (cfg env)) (output_key (cfg env) k) = None
         \<and> put_item env it = None
         \<and> tabela (snd (processa_imagem env k s)) = tabela s @ [it]
         \<and> objetos (snd (processa_imagem env k s)) =
             (objetos s)((BUCKET (cfg env), output_key (cfg env) k) \<mapsto> cont))"
    by (rule registro_so_apos_upload)
next
  assume h: "download_file env (BUCKET (cfg env)) k (local_input k) = Inl e"
  have "wp (processa_imagem env k) (\<lambda>x t. False) (\<lambda>e' t. e' = e \<and> tabela t = tabela s) s"
    unfolding processa_imagem_def using h by simp
  then show "fst (processa_imagem env k s) = Inl e"
    and "tabela (snd (processa_imagem env k s)) = tabela s"
    by (auto dest: wp_so_falha)
next
  assume h: "download_file env (BUCKET (cfg env)) k (local_input k) = Inr c
        \<and> yolo env (NOME_MODELO (cfg env)) c = Inl e"
  have "wp (processa_imagem env k) (\<lambda>x t. False) (\<lambda>e' t. e' = e \<and> tabela t = tabela s) s"
    unfolding processa_imagem_def using h by simp
  then show "fst (processa_imagem env k s) = Inl e"
    and "tabela (snd (processa_imagem env k s)) = tabela s"
    by (auto dest: wp_so_falha)
next
  assume h: "download_file env (BUCKET (cfg env)) k (local_input k) = Inr c
        \<and> yolo env (NOME_MODELO (cfg env)) c = Inr (n, a)
        \<and> imwrite env (local_output k) a = Inl e"
  have "wp (processa_imagem env k) (\<lambda>x t. False) (\<lambda>e' t. e' = e \<and> tabela t = tabela s) s"
    unfolding processa_imagem_def using h by simp
  then show "fst (processa_imagem env k s) = Inl e"
    and "tabela (snd (processa_imagem env k s)) = tabela s"
    by (auto dest: wp_so_falha)
next
  assume h: "download_file env (BUCKET (cfg env)) k (local_input k) = Inr c
        \<and> yolo env (NOME_MODELO (cfg env)) c = Inr (n, a)
        \<and> imwrite env (local_output k) a = Inr False
        \<and> arquivos s (local_output k) = None"
  then have "wp (processa_imagem env k) (\<lambda>x t. False)
           (\<lambda>e' t. e' = Excecao ''FileNotFoundError'' \<and> tabela t = tabela s) s"
    by (intro sem_arquivo_de_saida [of env k c n a s]) simp_all
  then show "fst (processa_imagem env k s) = Inl (Excecao ''FileNotFoundError'')"
    and "tabela (snd (processa_imagem env k s)) = tabela s"
    by (auto dest: wp_so_falha)
next
  assume h: "upload_file env (local_output k) (BUCKET (cfg env)) (output_key (cfg env) k) = Some e"
  have "wp (processa_imagem env k) (\<lambda>x t. False) (\<lambda>e' t. tabela t = tabela s) s"
    unfolding processa_imagem_def using h by (simp split: divide)
  then show "\<exists>e'. fst (processa_imagem env k s) = Inl e'"
    and "tabela (snd (processa_imagem env k s)) = tabela s"
    by (auto dest: wp_so_falha)
qed

text \<open>
  One item in a run that works, in one without download, in one without detection, and
  in one where the annotated image is not written.
\<close>

theorem um_registro_por_item_witness:
  "fst (processa_imagem ambiente_ok ''a.jpg'' estado_inicial) = Inr ()
   \<and> (\<exists>it. tabela (snd (processa_imagem ambiente_ok ''a.jpg'' estado_inicial)) = [it])
   \<and> download_file ambiente_sem_download ''fotos-esp32'' ''a.jpg'' ''a.jpg'' = Inl (ClientError ''404'')
   \<and> tabela (snd (processa_imagem ambiente_sem_download ''a.jpg'' estado_inicial)) = []
   \<and> yolo ambiente_sem_deteccao ''yolov8n.pt'' ''a.jpg'' = Inl (Excecao ''RuntimeError'')
   \<and> tabela (snd (processa_imagem ambiente_sem_deteccao ''a.jpg'' estado_inicial)) = []
   \<and> imwrite ambiente_sem_escrita ''out_a.jpg'' ''anotada a.jpg'' = Inr False
   \<and> arquivos estado_inicial ''out_a.jpg'' = None
   \<and> fst (processa_imagem ambiente_sem_escrita ''a.jpg'' estado_inicial)
       = Inl (Excecao ''FileNotFoundError'')
   \<and> tabela (snd (processa_imagem ambiente_sem_escrita ''a.jpg'' estado_inicial)) = []"
proof -
  have ok: "fst (processa_imagem ambiente_ok ''a.jpg'' estado_inicial) = Inr ()"
    by (simp add: avalia)
  have d: "download_file ambiente_sem_download (BUCKET (cfg ambiente_sem_download)) ''a.jpg''
      (local_input ''a.jpg'') = Inl (ClientError ''404'')"
    by (simp add: exemplos)
  have y: "download_file ambiente_sem_deteccao (BUCKET (cfg ambiente_sem_deteccao)) ''a.jpg''
      (local_input ''a.jpg'') = Inr ''a.jpg''
      \<and> yolo ambiente_sem_deteccao (NOME_MODELO (cfg ambiente_sem_deteccao)) ''a.jpg''
          = Inl (Excecao ''RuntimeError'')"
    by (simp add: exemplos)
  have w: "download_file ambiente_sem_escrita (BUCKET (cfg ambiente_sem_escrita)) ''a.jpg''
      (local_input ''a.jpg'') = Inr ''a.jpg''
      \<and> yolo ambiente_sem_escrita (NOME_MODELO (cfg ambiente_sem_escrita)) ''a.jpg''
          = Inr (2, ''anotada a.jpg'')
      \<and> imwrite ambiente_sem_escrita (local_output ''a.jpg'') ''anotada a.jpg'' = Inr False
      \<and> arquivos estado_inicial (local_output ''a.jpg'') = None"
    by (simp add: exemplos ambiente_sem_escrita_def)
  have c1: "\<exists>it. tabela (snd (processa_imagem ambiente_ok ''a.jpg'' estado_inicial)) = [it]"
    using um_registro_por_item [of ambiente_ok "''a.jpg''" estado_inicial] ok
    by (simp add: estado_inicial_def)
  have c2: "tabela (snd (processa_imagem ambiente_sem_download ''a.jpg'' estado_inicial)) = []"
    using um_registro_por_item [where env = ambiente_sem_download and k = "''a.jpg''"
        and s = estado_inicial and e = "ClientError ''404''"] d
    by (simp add: estado_inicial_def)
  have c3: "tabela (snd (processa_imagem ambiente_sem_deteccao ''a.jpg'' estado_inicial)) = []"
    using um_registro_por_item [where env = ambiente_sem_deteccao and k = "''a.jpg''"
        and s = estado_inicial and e = "Excecao ''RuntimeError''" and c = "''a.jpg''"] y
    by (simp add: estado_inicial_def)
  have c4: "fst (processa_imagem ambiente_sem_escrita ''a.jpg'' estado_inicial)
       = Inl (Excecao ''FileNotFoundError'')
      \<and> tabela (snd (processa_imagem ambiente_sem_escrita ''a.jpg'' estado_inicial)) = []"
    using um_registro_por_item [where env = ambiente_sem_escrita and k = "''a.jpg''"
        and s = estado_inicial and c = "''a.jpg''" and n = 2 and a = "''anotada a.jpg''"] w
    by (simp add: estado_inicial_def)
  have nomes: "local_output ''a.jpg'' = ''out_a.jpg''"
    by (simp add: local_input_def local_output_def basename_def)
  show ?thesis using ok c1 c2 c3 c4 w by (simp add: exemplos nomes ambiente_sem_escrita_def)
qed

subsection \<open>The local files\<close>

text \<open>
  C3, as stated, fails. The function has no \<^verbatim>\<open>finally\<close>: the two \<^verbatim>\<open>os.remove\<close> are its
  last statements, and an exception leaves before them. Here the download succeeds,
  the detection raises, and the downloaded file is still there.
\<close>

theorem limpeza_counterexample:
  "download_file ambiente_sem_deteccao ''fotos-esp32'' ''a.jpg'' (local_input ''a.jpg'')
     = Inr ''a.jpg''
   \<and> fst (processa_imagem ambiente_sem_deteccao ''a.jpg'' estado_inicial)
     = Inl (Excecao ''RuntimeError'')
   \<and> arquivos (snd (processa_imagem ambiente_sem_deteccao ''a.jpg'' estado_inicial))
       (local_input ''a.jpg'') = Some ''a.jpg''"
  by (simp add: avalia)

text \<open>
  C3, amended. When \<open>processa_imagem\<close> completes, both local files of the item, the
  downloaded input and the annotated output, have been removed.
\<close>

theorem limpeza_no_sucesso:
  "fst (processa_imagem env k s) = Inr () \<longrightarrow>
     arquivos (snd (processa_imagem env k s)) (local_input k) = None
     \<and> arquivos (snd (processa_imagem env k s)) (local_output k) = None"
proof
  assume "fst (processa_imagem env k s) = Inr ()"
  with processa_sucesso [of env k s]
  show "arquivos (snd (processa_imagem env k s)) (local_input k) = None
     \<and> arquivos (snd (processa_imagem env k s)) (local_output k) = None"
    by blast
qed

text \<open>A run that works leaves neither \<^verbatim>\<open>a.jpg\<close> nor \<^verbatim>\<open>out_a.jpg\<close>.\<close>

theorem limpeza_no_sucesso_witness:
  "fst (processa_imagem ambiente_ok ''a.jpg'' estado_inicial) = Inr ()
   \<and> local_input ''a.jpg'' = ''a.jpg'' \<and> local_output ''a.jpg'' = ''out_a.jpg''
   \<and> arquivos (snd (processa_imagem ambiente_ok ''a.jpg'' estado_inicial)) ''a.jpg'' = None
   \<and> arquivos (snd (processa_imagem ambiente_ok ''a.jpg'' estado_inicial)) ''out_a.jpg'' = None"
proof -
  have ok: "fst (processa_imagem ambiente_ok ''a.jpg'' estado_inicial) = Inr ()"
    by (simp add: avalia)
  have nomes: "local_input ''a.jpg'' = ''a.jpg''" "local_output ''a.jpg'' = ''out_a.jpg''"
    by (simp_all add: local_input_def local_output_def basename_def)
  have "arquivos (snd (processa_imagem ambiente_ok ''a.jpg'' estado_inicial)) ''a.jpg'' = None
     \<and> arquivos (snd (processa_imagem ambiente_ok ''a.jpg'' estado_inicial)) ''out_a.jpg'' = None"
    using limpeza_no_sucesso [of ambiente_ok "''a.jpg''" estado_inicial] ok
    unfolding nomes by blast
  with ok nomes show ?thesis by blast
qed

subsection \<open>The output key\<close>

text \<open>
  C4. The output key is the output prefix, then \<^verbatim>\<open>out_\<close>, then the base name of the
  input key: a function of the input key and the configuration. It is the key under
  which a completed item has stored its annotated image, and the \<^verbatim>\<open>outputKey\<close> of the
  record it has written.
\<close>

theorem output_key_formula:
  "output_key c k = OUTPUT_PREFIXO c @ ''out_'' @ basename k
   \<and> (fst (processa_imagem env k s) = Inr () \<longrightarrow>
        (\<exists>it. tabela (snd (processa_imagem env k s)) = tabela s @ [it]
           \<and> imagem it = k
           \<and> outputKey it = OUTPUT_PREFIXO (cfg env) @ ''out_'' @ basename k)
        \<and> objetos (snd (processa_imagem env k s))
            (BUCKET (cfg env), OUTPUT_PREFIXO (cfg env) @ ''out_'' @ basename k) \<noteq> None)"
proof (intro conjI impI)
  show "output_key c k = OUTPUT_PREFIXO c @ ''out_'' @ basename k" by (rule output_key_eq)
next
  assume "fst (processa_imagem env k s) = Inr ()"
  with processa_sucesso [of env k s] obtain n md h it cont
    where it: "monta_item env k (output_key (cfg env) k) n md h = Inr it"
      and tab: "tabela (snd (processa_imagem env k s)) = tabela s @ [it]"
      and obj: "objetos (snd (processa_imagem env k s)) =
          (objetos s)((BUCKET (cfg env), output_key (cfg env) k) \<mapsto> cont)"
    by blast
  from monta_item_campos [OF it] tab
  show "\<exists>it. tabela (snd (processa_imagem env k s)) = tabela s @ [it]
           \<and> imagem it = k
           \<and> outputKey it = OUTPUT_PREFIXO (cfg env) @ ''out_'' @ basename k"
    by (auto simp: output_key_eq)
  from obj show "objetos (snd (processa_imagem env k s))
            (BUCKET (cfg env), OUTPUT_PREFIXO (cfg env) @ ''out_'' @ basename k) \<noteq> None"
    by (simp add: output_key_eq)
qed

text \<open>The scenario of the specification: \<^verbatim>\<open>photos/001.jpg\<close> gives \<^verbatim>\<open>out_001.jpg\<close>.\<close>

theorem output_key_formula_witness:
  "output_key config_padrao ''photos/001.jpg'' = ''resultados/out_001.jpg''
   \<and> fst (processa_imagem ambiente_ok ''photos/001.jpg'' estado_inicial) = Inr ()
   \<and> (\<exists>it. tabela (snd (processa_imagem ambiente_ok ''photos/001.jpg'' estado_inicial)) = [it]
         \<and> imagem it = ''photos/001.jpg'' \<and> outputKey it = ''resultados/out_001.jpg'')
   \<and> objetos (snd (processa_imagem ambiente_ok ''photos/001.jpg'' estado_inicial))
        (''fotos-esp32'', ''resultados/out_001.jpg'') \<noteq> None"
proof -
  have ok: "fst (processa_imagem ambiente_ok ''photos/001.jpg'' estado_inicial) = Inr ()"
    by (simp add: avalia)
  have b: "basename ''photos/001.jpg'' = ''001.jpg''" by (simp add: basename_def)
  have c: "cfg ambiente_ok = config_padrao" "OUTPUT_PREFIXO config_padrao = ''resultados/''"
    "BUCKET config_padrao = ''fotos-esp32''" "tabela estado_inicial = []"
    by (simp_all add: exemplos)
  show ?thesis
    using output_key_formula [of config_padrao "''photos/001.jpg''" ambiente_ok estado_inicial] ok
    by (simp add: b c)
qed

subsection \<open>The metadata\<close>

text \<open>
  C5, as stated, fails. The handler names \<^verbatim>\<open>ClientError\<close>; a \<^verbatim>\<open>head_object\<close> that fails
  with another exception (no route to the endpoint, say) raises it to the caller, and
  the item fails with it.
\<close>

theorem pega_metadados_counterexample:
  "head_object ambiente_sem_rede_no_head ''fotos-esp32'' ''a.jpg''
     = Inl (Excecao ''EndpointConnectionError'')
   \<and> fst (pega_metadados ambiente_sem_rede_no_head ''fotos-esp32'' ''a.jpg'' estado_inicial)
     = Inl (Excecao ''EndpointConnectionError'')
   \<and> fst (processa_imagem ambiente_sem_rede_no_head ''a.jpg'' estado_inicial)
     = Inl (Excecao ''EndpointConnectionError'')"
  by (simp add: avalia)

text \<open>
  C5, amended. When \<^verbatim>\<open>head_object\<close> fails with a \<^verbatim>\<open>ClientError\<close>, \<open>pega_metadados\<close>
  prints the failure, returns the empty mapping and raises nothing. When it fails with
  any other exception, \<open>pega_metadados\<close> raises that exception and changes nothing.
\<close>

theorem pega_metadados_client_error:
  "(head_object env bucket key = Inl (ClientError msg) \<longrightarrow>
      fst (pega_metadados env bucket key s) = Inr Map.empty
      \<and> snd (pega_metadados env bucket key s)
          = s\<lparr>saida := saida s @ [FalhaMetadados key (ClientError msg)]\<rparr>)
   \<and> (head_object env bucket key = Inl (Excecao msg) \<longrightarrow>
      pega_metadados env bucket key s = (Inl (Excecao msg), s))"
  by (simp add: pega_metadados_def print_def)

text \<open>An object that is not there, and an endpoint that cannot be reached.\<close>

theorem pega_metadados_client_error_witness:
  "head_object ambiente_head_404 ''fotos-esp32'' ''a.jpg'' = Inl (ClientError ''404'')
   \<and> fst (pega_metadados ambiente_head_404 ''fotos-esp32'' ''a.jpg'' estado_inicial)
       = Inr Map.empty
   \<and> saida (snd (pega_metadados ambiente_head_404 ''fotos-esp32'' ''a.jpg'' estado_inicial))
       = [FalhaMetadados ''a.jpg'' (ClientError ''404'')]
   \<and> head_object ambiente_sem_rede_no_head ''fotos-esp32'' ''a.jpg''
       = Inl (Excecao ''EndpointConnectionError'')
   \<and> fst (pega_metadados ambiente_sem_rede_no_head ''fotos-esp32'' ''a.jpg'' estado_inicial)
       = Inl (Excecao ''EndpointConnectionError'')"
proof -
  have h1: "head_object ambiente_head_404 ''fotos-esp32'' ''a.jpg'' = Inl (ClientError ''404'')"
    by (simp add: exemplos)
  have h2: "head_object ambiente_sem_rede_no_head ''fotos-esp32'' ''a.jpg''
       = Inl (Excecao ''EndpointConnectionError'')"
    by (simp add: exemplos)
  show ?thesis
    using pega_metadados_client_error [of ambiente_head_404 "''fotos-esp32''" "''a.jpg''"
        "''404''" estado_inicial]
      pega_metadados_client_error [of ambiente_sem_rede_no_head "''fotos-esp32''" "''a.jpg''"
        "''EndpointConnectionError''" estado_inicial]
      h1 h2
    by (simp add: estado_inicial_def)
qed

subsection \<open>A write that fails\<close>

text \<open>
  The item on which every step before the write succeeds and \<^verbatim>\<open>put_item\<close> raises.
\<close>

lemma gravacao_recusada:
  assumes "download_file env (BUCKET (cfg env)) k (local_input k) = Inr c"
    and "yolo env (NOME_MODELO (cfg env)) c = Inr (n, a)"
    and "imwrite env (local_output k) a = Inr True \<and> cont = a
         \<or> imwrite env (local_output k) a = Inr False \<and> arquivos s (local_output k) = Some cont"
    and "upload_file env (local_output k) (BUCKET (cfg env)) (output_key (cfg env) k) = None"
    and "head_object env (BUCKET (cfg env)) k = Inr resp
           \<and> md = (case Metadata resp of None \<Rightarrow> Map.empty | Some m \<Rightarrow> m)
         \<or> head_object env (BUCKET (cfg env)) k = Inl (ClientError msg) \<and> md = Map.empty"
    and "agora env ''America/Sao_Paulo'' = Inr h"
    and "monta_item env k (output_key (cfg env) k) n md h = Inr it"
    and "put_item env it = Some e"
  shows "wp (processa_imagem env k) (\<lambda>x t. False)
           (\<lambda>e' t. e' = e \<and> tabela t = tabela s
              \<and> objetos t = (objetos s)((BUCKET (cfg env), output_key (cfg env) k) \<mapsto> cont)) s"
  unfolding processa_imagem_def using assms
  by (cases e) (elim disjE exE conjE; simp)+

text \<open>
  C6. When \<^verbatim>\<open>put_item\<close> fails, \<open>salva_dynamo\<close> raises the error to its caller and no
  record is written. In \<open>processa_imagem\<close>, when the download, the detection, the
  upload, the metadata and the clock have succeeded and \<^verbatim>\<open>put_item\<close> fails on the record,
  the item fails with the error of the write, no record is written, and the upload is
  not undone: the bucket holds, under the output key, the content of the local output
  file, which is the annotated image when \<^verbatim>\<open>cv2.imwrite\<close> wrote it.
\<close>

theorem falha_na_gravacao:
  "(monta_item env ik ok n md h = Inr it \<and> put_item env it = Some e \<longrightarrow>
      fst (salva_dynamo env ik ok n md h s) = Inl e
      \<and> tabela (snd (salva_dynamo env ik ok n md h s)) = tabela s)
   \<and> (download_file env (BUCKET (cfg env)) k (local_input k) = Inr c
      \<and> yolo env (NOME_MODELO (cfg env)) c = Inr (n, a)
      \<and> (imwrite env (local_output k) a = Inr True \<and> cont = a
         \<or> imwrite env (local_output k) a = Inr False \<and> arquivos s (local_output k) = Some cont)
      \<and> upload_file env (local_output k) (BUCKET (cfg env)) (output_key (cfg env) k) = None
      \<and> (head_object env (BUCKET (cfg env)) k = Inr resp
           \<and> md = (case Metadata resp of None \<Rightarrow> Map.empty | Some m \<Rightarrow> m)
         \<or> head_object env (BUCKET (cfg env)) k = Inl (ClientError msg) \<and> md = Map.empty)
      \<and> agora env ''America/Sao_Paulo'' = Inr h
      \<and> monta_item env k (output_key (cfg env) k) n md h = Inr it
      \<and> put_item env it = Some e \<longrightarrow>
      fst (processa_imagem env k s) = Inl e
      \<and> tabela (snd (processa_imagem env k s)) = tabela s
      \<and> objetos (snd (processa_imagem env k s)) =
          (objetos s)((BUCKET (cfg env), output_key (cfg env) k) \<mapsto> cont))"
proof (intro conjI impI)
  assume h: "monta_item env ik ok n md h = Inr it \<and> put_item env it = Some e"
  then show "fst (salva_dynamo env ik ok n md h s) = Inl e"
    and "tabela (snd (salva_dynamo env ik ok n md h s)) = tabela s"
    by (cases e; simp add: salva_dynamo_def print_def)+
next
  assume h: "download_file env (BUCKET (cfg env)) k (local_input k) = Inr c
      \<and> yolo env (NOME_MODELO (cfg env)) c = Inr (n, a)
      \<and> (imwrite env (local_output k) a = Inr True \<and> cont = a
         \<or> imwrite env (local_output k) a = Inr False \<and> arquivos s (local_output k) = Some cont)
      \<and> upload_file env (local_output k) (BUCKET (cfg env)) (output_key (cfg env) k) = None
      \<and> (head_object env (BUCKET (cfg env)) k = Inr resp
           \<and> md = (case Metadata resp of None \<Rightarrow> Map.empty | Some m \<Rightarrow> m)
         \<or> head_object env (BUCKET (cfg env)) k = Inl (ClientError msg) \<and> md = Map.empty)
      \<and> agora env ''America/Sao_Paulo'' = Inr h
      \<and> monta_item env k (output_key (cfg env) k) n md h = Inr it
      \<and> put_item env it = Some e"
  have "wp (processa_imagem env k) (\<lambda>x t. False)
           (\<lambda>e' t. e' = e \<and> tabela t = tabela s
              \<and> objetos t = (objetos s)((BUCKET (cfg env), output_key (cfg env) k) \<mapsto> cont)) s"
    by (rule gravacao_recusada [of env k c n a cont s resp md msg h it e]) (use h in blast)+
  then show "fst (processa_imagem env k s) = Inl e"
    and "tabela (snd (processa_imagem env k s)) = tabela s"
    and "objetos (snd (processa_imagem env k s)) =
          (objetos s)((BUCKET (cfg env), output_key (cfg env) k) \<mapsto> cont)"
    by (auto dest: wp_so_falha)
qed

text \<open>
  The run that works, with a record store that answers 503: the annotated image of
  \<^verbatim>\<open>a.jpg\<close> is in the bucket and the table is empty.
\<close>

theorem falha_na_gravacao_witness:
  "download_file ambiente_sem_gravacao ''fotos-esp32'' ''a.jpg'' ''a.jpg'' = Inr ''a.jpg''
   \<and> yolo ambiente_sem_gravacao ''yolov8n.pt'' ''a.jpg'' = Inr (2, ''anotada a.jpg'')
   \<and> imwrite ambiente_sem_gravacao ''out_a.jpg'' ''anotada a.jpg'' = Inr True
   \<and> upload_file ambiente_sem_gravacao ''out_a.jpg'' ''fotos-esp32'' ''resultados/out_a.jpg''
       = None
   \<and> fst (processa_imagem ambiente_sem_gravacao ''a.jpg'' estado_inicial)
       = Inl (ClientError ''503'')
   \<and> tabela (snd (processa_imagem ambiente_sem_gravacao ''a.jpg'' estado_inicial)) = []
   \<and> objetos (snd (processa_imagem ambiente_sem_gravacao ''a.jpg'' estado_inicial))
        (''fotos-esp32'', ''resultados/out_a.jpg'') = Some ''anotada a.jpg''"
proof -
  let ?md = "[''battery-level'' \<mapsto> ''87.5'', ''device-timestamp'' \<mapsto> ''2024-01-01T10:00:00'']"
  let ?it = "\<lparr>imagem = ''a.jpg'', outputKey = ''resultados/out_a.jpg'', qtd_pessoas = 2,
      bateria = Some (Decimal ''87.5''), hora_imagem = Some ''2024-01-01T10:00:00'',
      hora_execucao = ''2025-06-01T12:00:00-03:00''\<rparr>"
  have c: "BUCKET (cfg ambiente_sem_gravacao) = ''fotos-esp32''"
    "NOME_MODELO (cfg ambiente_sem_gravacao) = ''yolov8n.pt''"
    "output_key (cfg ambiente_sem_gravacao) ''a.jpg'' = ''resultados/out_a.jpg''"
    "local_input ''a.jpg'' = ''a.jpg''" "local_output ''a.jpg'' = ''out_a.jpg''"
    "tabela estado_inicial = []" "objetos estado_inicial = Map.empty"
    by (simp_all add: exemplos output_key_def local_output_def local_input_def basename_def)
  have o: "download_file ambiente_sem_gravacao ''fotos-esp32'' ''a.jpg'' ''a.jpg'' = Inr ''a.jpg''"
    "yolo ambiente_sem_gravacao ''yolov8n.pt'' ''a.jpg'' = Inr (2, ''anotada a.jpg'')"
    "imwrite ambiente_sem_gravacao ''out_a.jpg'' ''anotada a.jpg'' = Inr True"
    "upload_file ambiente_sem_gravacao ''out_a.jpg'' ''fotos-esp32'' ''resultados/out_a.jpg''
       = None"
    "head_object ambiente_sem_gravacao ''fotos-esp32'' ''a.jpg'' = Inr \<lparr>Metadata = Some ?md\<rparr>"
    "agora ambiente_sem_gravacao ''America/Sao_Paulo'' = Inr ''2025-06-01T12:00:00-03:00''"
    "put_item ambiente_sem_gravacao ?it = Some (ClientError ''503'')"
    by (simp_all add: exemplos)
  have m: "monta_item ambiente_sem_gravacao ''a.jpg'' ''resultados/out_a.jpg'' 2 ?md
      ''2025-06-01T12:00:00-03:00'' = Inr ?it"
    by (simp add: monta_item_def exemplos)
  have "fst (processa_imagem ambiente_sem_gravacao ''a.jpg'' estado_inicial)
       = Inl (ClientError ''503'')
     \<and> tabela (snd (processa_imagem ambiente_sem_gravacao ''a.jpg'' estado_inicial))
       = tabela estado_inicial
     \<and> objetos (snd (processa_imagem ambiente_sem_gravacao ''a.jpg'' estado_inicial)) =
        (objetos estado_inicial)((''fotos-esp32'', ''resultados/out_a.jpg'') \<mapsto> ''anotada a.jpg'')"
    using falha_na_gravacao [where env = ambiente_sem_gravacao and k = "''a.jpg''"
        and s = estado_inicial and c = "''a.jpg''" and n = 2 and a = "''anotada a.jpg''"
        and cont = "''anotada a.jpg''" and resp = "\<lparr>Metadata = Some ?md\<rparr>" and md = ?md
        and h = "''2025-06-01T12:00:00-03:00''" and it = ?it and e = "ClientError ''503''"]
      o m
    unfolding c by simp
  then show ?thesis using o by (simp add: c)
qed

subsection \<open>The optional fields of the record\<close>

text \<open>
  C8. When the metadata has neither \<^verbatim>\<open>battery-level\<close> nor \<^verbatim>\<open>device-timestamp\<close>, the
  record is built without raising, with both fields null; \<open>salva_dynamo\<close> hands it to
  \<^verbatim>\<open>put_item\<close>, succeeds when the write does, and then has written that record.
\<close>

theorem sem_metadados_campos_nulos:
  assumes "metadados ''battery-level'' = None" and "metadados ''device-timestamp'' = None"
  shows "monta_item env ik ok n metadados h =
           Inr \<lparr>imagem = ik, outputKey = ok, qtd_pessoas = int n, bateria = None,
                hora_imagem = None, hora_execucao = h\<rparr>
         \<and> fst (salva_dynamo env ik ok n metadados h s) =
             (case put_item env \<lparr>imagem = ik, outputKey = ok, qtd_pessoas = int n,
                     bateria = None, hora_imagem = None, hora_execucao = h\<rparr> of
                None \<Rightarrow> Inr ()
              | Some e \<Rightarrow> Inl e)
         \<and> (put_item env \<lparr>imagem = ik, outputKey = ok, qtd_pessoas = int n,
                     bateria = None, hora_imagem = None, hora_execucao = h\<rparr> = None \<longrightarrow>
              tabela (snd (salva_dynamo env ik ok n metadados h s)) =
                tabela s @ [\<lparr>imagem = ik, outputKey = ok, qtd_pessoas = int n,
                     bateria = None, hora_imagem = None, hora_execucao = h\<rparr>])"
proof -
  have m: "monta_item env ik ok n metadados h =
           Inr \<lparr>imagem = ik, outputKey = ok, qtd_pessoas = int n, bateria = None,
                hora_imagem = None, hora_execucao = h\<rparr>"
    using assms by (simp add: monta_item_def)
  show ?thesis
    by (simp add: m salva_dynamo_def print_def split: option.splits erro.splits)
qed

text \<open>An object with no metadata at all.\<close>

theorem sem_metadados_campos_nulos_witness:
  "(Map.empty :: metadados) ''battery-level'' = None
   \<and> (Map.empty :: metadados) ''device-timestamp'' = None
   \<and> monta_item ambiente_ok ''a.jpg'' ''resultados/out_a.jpg'' 2 Map.empty ''12:00'' =
       Inr \<lparr>imagem = ''a.jpg'', outputKey = ''resultados/out_a.jpg'', qtd_pessoas = 2,
            bateria = None, hora_imagem = None, hora_execucao = ''12:00''\<rparr>
   \<and> fst (salva_dynamo ambiente_ok ''a.jpg'' ''resultados/out_a.jpg'' 2 Map.empty ''12:00''
            estado_inicial) = Inr ()
   \<and> tabela (snd (salva_dynamo ambiente_ok ''a.jpg'' ''resultados/out_a.jpg'' 2 Map.empty
            ''12:00'' estado_inicial)) =
       [\<lparr>imagem = ''a.jpg'', outputKey = ''resultados/out_a.jpg'', qtd_pessoas = 2,
            bateria = None, hora_imagem = None, hora_execucao = ''12:00''\<rparr>]"
  using sem_metadados_campos_nulos [of Map.empty ambiente_ok "''a.jpg''"
      "''resultados/out_a.jpg''" 2 "''12:00''" estado_inicial]
  by (simp add: exemplos)

text \<open>
  C9. A \<^verbatim>\<open>battery-level\<close> or a \<^verbatim>\<open>device-timestamp\<close> bound to the empty string is
  treated as an absent key: the record and the whole of \<open>salva_dynamo\<close> are the same
  as without the key, and the field is null.
\<close>

theorem valor_vazio_como_ausente:
  "monta_item env ik ok n (md(''battery-level'' \<mapsto> '''')) h
     = monta_item env ik ok n (md(''battery-level'' := None)) h
   \<and> monta_item env ik ok n (md(''device-timestamp'' \<mapsto> '''')) h
     = monta_item env ik ok n (md(''device-timestamp'' := None)) h
   \<and> salva_dynamo env ik ok n (md(''battery-level'' \<mapsto> '''')) h s
     = salva_dynamo env ik ok n (md(''battery-level'' := None)) h s
   \<and> salva_dynamo env ik ok n (md(''device-timestamp'' \<mapsto> '''')) h s
     = salva_dynamo env ik ok n (md(''device-timestamp'' := None)) h s
   \<and> (\<forall>it. monta_item env ik ok n (md(''battery-level'' \<mapsto> '''')) h = Inr it \<longrightarrow>
          bateria it = None)
   \<and> (\<forall>it. monta_item env ik ok n (md(''device-timestamp'' \<mapsto> '''')) h = Inr it \<longrightarrow>
          hora_imagem it = None)"
proof -
  have b: "monta_item env ik ok n (md(''battery-level'' \<mapsto> '''')) h
     = monta_item env ik ok n (md(''battery-level'' := None)) h"
    by (simp add: monta_item_def)
  have d: "monta_item env ik ok n (md(''device-timestamp'' \<mapsto> '''')) h
     = monta_item env ik ok n (md(''device-timestamp'' := None)) h"
    by (simp add: monta_item_def Let_def split: sum.splits option.splits)
  have bn: "bateria it = None"
    if "monta_item env ik ok n (md(''battery-level'' \<mapsto> '''')) h = Inr it" for it
    using that by (auto simp: monta_item_def Let_def split: divide)
  have dn: "hora_imagem it = None"
    if "monta_item env ik ok n (md(''device-timestamp'' \<mapsto> '''')) h = Inr it" for it
    using that by (auto simp: monta_item_def Let_def split: divide)
  show ?thesis
    using bn dn by (simp add: salva_dynamo_def b d)
qed

text \<open>An empty battery level beside a device timestamp.\<close>

theorem valor_vazio_como_ausente_witness:
  "monta_item ambiente_ok ''a.jpg'' ''resultados/out_a.jpg'' 2
      [''battery-level'' \<mapsto> '''', ''device-timestamp'' \<mapsto> ''10:00''] ''12:00''
     = Inr \<lparr>imagem = ''a.jpg'', outputKey = ''resultados/out_a.jpg'', qtd_pessoas = 2,
            bateria = None, hora_imagem = Some ''10:00'', hora_execucao = ''12:00''\<rparr>
   \<and> bateria \<lparr>imagem = ''a.jpg'', outputKey = ''resultados/out_a.jpg'', qtd_pessoas = 2,
            bateria = None, hora_imagem = Some ''10:00'', hora_execucao = ''12:00''\<rparr> = None"
proof -
  have m: "monta_item ambiente_ok ''a.jpg'' ''resultados/out_a.jpg'' 2
      [''device-timestamp'' \<mapsto> ''10:00'', ''battery-level'' \<mapsto> ''''] ''12:00''
     = Inr \<lparr>imagem = ''a.jpg'', outputKey = ''resultados/out_a.jpg'', qtd_pessoas = 2,
            bateria = None, hora_imagem = Some ''10:00'', hora_execucao = ''12:00''\<rparr>"
    by (simp add: monta_item_def)
  have m': "monta_item ambiente_ok ''a.jpg'' ''resultados/out_a.jpg'' 2
      [''battery-level'' \<mapsto> '''', ''device-timestamp'' \<mapsto> ''10:00''] ''12:00''
     = Inr \<lparr>imagem = ''a.jpg'', outputKey = ''resultados/out_a.jpg'', qtd_pessoas = 2,
            bateria = None, hora_imagem = Some ''10:00'', hora_execucao = ''12:00''\<rparr>"
    by (simp add: monta_item_def)
  from valor_vazio_como_ausente [of ambiente_ok "''a.jpg''" "''resultados/out_a.jpg''" 2
      "[''device-timestamp'' \<mapsto> ''10:00'']" "''12:00''" estado_inicial] m
  have "bateria \<lparr>imagem = ''a.jpg'', outputKey = ''resultados/out_a.jpg'', qtd_pessoas = 2,
            bateria = None, hora_imagem = Some ''10:00'', hora_execucao = ''12:00''\<rparr> = None"
    by blast
  with m' show ?thesis by blast
qed

subsection \<open>Keys with the same base name\<close>

text \<open>
  C10. Two input keys with the same base name have the same local input file, the same
  local output file and the same output key. When the item of the second key completes
  and its annotated image was written, that image is what the bucket holds under the
  output key of the first, whatever was there before.
\<close>

theorem mesmo_basename_mesmos_nomes:
  "(basename k1 = basename k2 \<longrightarrow>
      local_input k1 = local_input k2 \<and> local_output k1 = local_output k2
      \<and> output_key c k1 = output_key c k2)
   \<and> (basename k1 = basename k2
      \<and> fst (processa_imagem env k2 s) = Inr ()
      \<and> download_file env (BUCKET (cfg env)) k2 (local_input k2) = Inr img
      \<and> yolo env (NOME_MODELO (cfg env)) img = Inr (n, a)
      \<and> imwrite env (local_output k2) a = Inr True \<longrightarrow>
      objetos (snd (processa_imagem env k2 s)) (BUCKET (cfg env), output_key (cfg env) k1)
        = Some a)"
proof (intro conjI impI)
  assume "basename k1 = basename k2"
  then show "local_input k1 = local_input k2" and "local_output k1 = local_output k2"
    and "output_key c k1 = output_key c k2"
    by (simp_all add: local_input_def local_output_def output_key_def)
next
  assume h: "basename k1 = basename k2
      \<and> fst (processa_imagem env k2 s) = Inr ()
      \<and> download_file env (BUCKET (cfg env)) k2 (local_input k2) = Inr img
      \<and> yolo env (NOME_MODELO (cfg env)) img = Inr (n, a)
      \<and> imwrite env (local_output k2) a = Inr True"
  then have k: "output_key (cfg env) k1 = output_key (cfg env) k2"
    by (simp add: local_input_def local_output_def output_key_def)
  from processa_sucesso [of env k2 s] h
  have "objetos (snd (processa_imagem env k2 s)) =
          (objetos s)((BUCKET (cfg env), output_key (cfg env) k2) \<mapsto> a)"
    by auto
  then show "objetos (snd (processa_imagem env k2 s))
      (BUCKET (cfg env), output_key (cfg env) k1) = Some a"
    by (simp add: k)
qed

text \<open>
  \<^verbatim>\<open>a/x.jpg\<close> then \<^verbatim>\<open>b/x.jpg\<close>: the annotated image of the second replaces that of the
  first.
\<close>

theorem mesmo_basename_mesmos_nomes_witness:
  "''a/x.jpg'' \<noteq> ''b/x.jpg'' \<and> basename ''a/x.jpg'' = basename ''b/x.jpg''
   \<and> local_input ''a/x.jpg'' = local_input ''b/x.jpg''
   \<and> local_output ''a/x.jpg'' = local_output ''b/x.jpg''
   \<and> output_key config_padrao ''a/x.jpg'' = output_key config_padrao ''b/x.jpg''
   \<and> objetos (snd (processa_imagem ambiente_ok ''a/x.jpg'' estado_inicial))
        (''fotos-esp32'', ''resultados/out_x.jpg'') = Some ''anotada a/x.jpg''
   \<and> fst (processa_imagem ambiente_ok ''b/x.jpg''
        (snd (processa_imagem ambiente_ok ''a/x.jpg'' estado_inicial))) = Inr ()
   \<and> objetos (snd (processa_imagem ambiente_ok ''b/x.jpg''
        (snd (processa_imagem ambiente_ok ''a/x.jpg'' estado_inicial))))
        (''fotos-esp32'', ''resultados/out_x.jpg'') = Some ''anotada b/x.jpg''"
proof -
  have b: "basename ''a/x.jpg'' = basename ''b/x.jpg''" by (simp add: basename_def)
  have primeiro: "objetos (snd (processa_imagem ambiente_ok ''a/x.jpg'' estado_inicial))
        (''fotos-esp32'', ''resultados/out_x.jpg'') = Some ''anotada a/x.jpg''"
    by (simp add: avalia)
  have segundo: "fst (processa_imagem ambiente_ok ''b/x.jpg''
        (snd (processa_imagem ambiente_ok ''a/x.jpg'' estado_inicial))) = Inr ()"
    by (simp add: avalia)
  have o: "download_file ambiente_ok (BUCKET (cfg ambiente_ok)) ''b/x.jpg''
        (local_input ''b/x.jpg'') = Inr ''b/x.jpg''"
    "yolo ambiente_ok (NOME_MODELO (cfg ambiente_ok)) ''b/x.jpg'' = Inr (2, ''anotada b/x.jpg'')"
    "imwrite ambiente_ok (local_output ''b/x.jpg'') ''anotada b/x.jpg'' = Inr True"
    by (simp_all add: exemplos)
  have c: "BUCKET (cfg ambiente_ok) = ''fotos-esp32''"
    "output_key (cfg ambiente_ok) ''a/x.jpg'' = ''resultados/out_x.jpg''"
    by (simp_all add: exemplos output_key_def local_output_def local_input_def basename_def)
  note t = mesmo_basename_mesmos_nomes [where ?k1.0 = "''a/x.jpg''" and ?k2.0 = "''b/x.jpg''"
      and c = config_padrao and env = ambiente_ok
      and s = "snd (processa_imagem ambiente_ok ''a/x.jpg'' estado_inicial)"
      and img = "''b/x.jpg''" and n = 2 and a = "''anotada b/x.jpg''"]
  from t b have nomes: "local_input ''a/x.jpg'' = local_input ''b/x.jpg''
      \<and> local_output ''a/x.jpg'' = local_output ''b/x.jpg''
      \<and> output_key config_padrao ''a/x.jpg'' = output_key config_padrao ''b/x.jpg''"
    by blast
  from t b segundo o have "objetos (snd (processa_imagem ambiente_ok ''b/x.jpg''
        (snd (processa_imagem ambiente_ok ''a/x.jpg'' estado_inicial))))
        (BUCKET (cfg ambiente_ok), output_key (cfg ambiente_ok) ''a/x.jpg'')
        = Some ''anotada b/x.jpg''"
    by blast
  then have sobrescreve: "objetos (snd (processa_imagem ambiente_ok ''b/x.jpg''
        (snd (processa_imagem ambiente_ok ''a/x.jpg'' estado_inicial))))
        (''fotos-esp32'', ''resultados/out_x.jpg'') = Some ''anotada b/x.jpg''"
    by (simp only: c)
  have "''a/x.jpg'' \<noteq> ''b/x.jpg''" by simp
  with b nomes primeiro segundo sobrescreve show ?thesis by blast
qed

end
